theory Spec2Isabelle
  imports Main
begin

section \<open>Conventions of the embedding\<close>

text \<open>
  Amounts are decimal strings in the source and every computation on them goes through
  \<^verbatim>\<open>BigInt(...)\<close> and back through \<^verbatim>\<open>toString()\<close>; they are unbounded integers of
  either sign here (\<^typ>\<open>int\<close>).  A string that \<^verbatim>\<open>BigInt\<close> does not parse is not an
  amount and is outside the model.  The wall clock is an argument wherever the source reads
  it: \<open>today\<close> is \<^verbatim>\<open>new Date().toISOString().split("T")[0]\<close>, \<open>now\<close> is a
  reading in milliseconds.  Console output is not modelled.  Where two records of the
  source share a field name (\<^verbatim>\<open>id\<close>, \<^verbatim>\<open>status\<close>, \<^verbatim>\<open>agentId\<close>,
  \<^verbatim>\<open>config\<close>, ...) the fields carry a prefix that names the record.
\<close>

subsection \<open>A JavaScript \<^verbatim>\<open>Map\<close> with insertion order\<close>

text \<open>
  \<^verbatim>\<open>Map.set\<close> overwrites the value of a key that is present and keeps its position;
  a new key goes to the end.  \<^verbatim>\<open>Map.values()\<close> enumerates in that order.
\<close>

type_synonym ('k, 'v) js_map = "('k \<times> 'v) list"

fun map_set :: "('k, 'v) js_map \<Rightarrow> 'k \<Rightarrow> 'v \<Rightarrow> ('k, 'v) js_map" where
  "map_set [] k v = [(k, v)]"
| "map_set ((k', v') # m) k v =
     (if k' = k then (k, v) # m else (k', v') # map_set m k v)"

fun map_get :: "('k, 'v) js_map \<Rightarrow> 'k \<Rightarrow> 'v option" where
  "map_get [] k = None"
| "map_get ((k', v') # m) k = (if k' = k then Some v' else map_get m k)"

definition map_values :: "('k, 'v) js_map \<Rightarrow> 'v list" where
  "map_values m = map snd m"

section \<open>Payment ledger (src/treasurer/payment-ledger.ts)\<close>

datatype entry_status = Pending | Accepted | Rejected | Error

text \<open>Of \<^verbatim>\<open>PaymentRequirements\<close> (x402) the code reads \<^verbatim>\<open>maxAmountRequired\<close> only.\<close>

record PaymentRequirements =
  maxAmountRequired :: int

text \<open>\<^verbatim>\<open>PaymentEntry\<close> of src/types/index.ts; \<open>'p\<close> is the x402 \<^verbatim>\<open>PaymentPayload\<close>.\<close>

record 'p PaymentEntry =
  pe_id :: string
  pe_timestamp :: int
  pe_agentId :: string
  pe_toolName :: string
  pe_amount :: int
  pe_status :: entry_status
  pe_requirements :: "PaymentRequirements option"
  pe_payment :: "'p option"
  pe_error :: "string option"

record 'p PaymentLedger =
  entries :: "(string, 'p PaymentEntry) js_map"
  dailySpending :: "string \<rightharpoonup> int"

definition newPaymentLedger :: "'p PaymentLedger" where
  "newPaymentLedger = \<lparr> entries = [], dailySpending = Map.empty \<rparr>"

definition recordAuthorization ::
  "int \<Rightarrow> 'p PaymentLedger \<Rightarrow> string \<Rightarrow> string \<Rightarrow> string \<Rightarrow> PaymentRequirements \<Rightarrow> 'p
     \<Rightarrow> 'p PaymentLedger" where
  "recordAuthorization now l ident agentId toolName reqs payment =
     (let entry = \<lparr> pe_id = ident, pe_timestamp = now, pe_agentId = agentId,
                    pe_toolName = toolName, pe_amount = maxAmountRequired reqs,
                    pe_status = Pending, pe_requirements = Some reqs,
                    pe_payment = Some payment, pe_error = None \<rparr>
      in l\<lparr>entries := map_set (entries l) ident entry\<rparr>)"

definition addToDailySpending :: "string \<Rightarrow> 'p PaymentLedger \<Rightarrow> int \<Rightarrow> 'p PaymentLedger" where
  "addToDailySpending today l amount =
     (if today = [] then l
      else let current = (case dailySpending l today of None \<Rightarrow> 0 | Some c \<Rightarrow> c)
           in l\<lparr>dailySpending := (dailySpending l)(today \<mapsto> current + amount)\<rparr>)"

text \<open>
  \<^verbatim>\<open>if (error)\<close> holds for a string that is present and not empty.  The entry is
  mutated through the reference the map holds, so it keeps its place in the map.
\<close>

definition updateStatus ::
  "string \<Rightarrow> 'p PaymentLedger \<Rightarrow> string \<Rightarrow> entry_status \<Rightarrow> string option \<Rightarrow> 'p PaymentLedger" where
  "updateStatus today l ident status err =
     (case map_get (entries l) ident of
        None \<Rightarrow> l
      | Some entry \<Rightarrow>
          let entry1 = entry\<lparr>pe_status := status\<rparr>;
              entry2 = (case err of
                          None \<Rightarrow> entry1
                        | Some e \<Rightarrow> if e \<noteq> [] then entry1\<lparr>pe_error := Some e\<rparr> else entry1);
              l1 = l\<lparr>entries := map_set (entries l) ident entry2\<rparr>
          in if status = Accepted then addToDailySpending today l1 (pe_amount entry2) else l1)"

definition getEntry :: "'p PaymentLedger \<Rightarrow> string \<Rightarrow> 'p PaymentEntry option" where
  "getEntry l ident = map_get (entries l) ident"

definition getTotalSpent :: "'p PaymentLedger \<Rightarrow> int" where
  "getTotalSpent l =
     foldl (\<lambda>total entry. if pe_status entry = Accepted then total + pe_amount entry else total)
       0 (map_values (entries l))"

definition getSpentByAgent :: "'p PaymentLedger \<Rightarrow> string \<Rightarrow> int" where
  "getSpentByAgent l agentId =
     foldl (\<lambda>total entry.
              if pe_agentId entry = agentId \<and> pe_status entry = Accepted
              then total + pe_amount entry else total)
       0 (map_values (entries l))"

definition getTodaySpending :: "string \<Rightarrow> 'p PaymentLedger \<Rightarrow> int" where
  "getTodaySpending today l = (case dailySpending l today of None \<Rightarrow> 0 | Some c \<Rightarrow> c)"

text \<open>
  The persisted document is modelled as the value \<^verbatim>\<open>JSON.parse\<close> gives back for the
  text \<^verbatim>\<open>JSON.stringify\<close> wrote: the entries in map order and the daily buckets as
  an object from day to amount.
\<close>

record 'p LedgerDocument =
  doc_entries :: "'p PaymentEntry list"
  doc_dailySpending :: "string \<rightharpoonup> int"

definition exportToJson :: "'p PaymentLedger \<Rightarrow> 'p LedgerDocument" where
  "exportToJson l =
     \<lparr> doc_entries = map_values (entries l), doc_dailySpending = dailySpending l \<rparr>"

definition importFromJson :: "'p PaymentLedger \<Rightarrow> 'p LedgerDocument \<Rightarrow> 'p PaymentLedger" where
  "importFromJson l doc =
     l\<lparr> entries := foldl (\<lambda>m entry. map_set m (pe_id entry) entry) [] (doc_entries doc),
        dailySpending := doc_dailySpending doc \<rparr>"

section \<open>Budget manager (src/treasurer/budget-manager.ts)\<close>

record BudgetConfig =
  totalBudget :: int
  dailyLimit :: int
  perRequestLimit :: int
  autoApproveUnder :: int

record AgentBudgetAllocation =
  alloc_agentId :: string
  allocated :: int
  reserved :: int

text \<open>
  The manager holds a reference to the ledger the treasurer owns; the ledger is an
  argument of the operations that read it.
\<close>

record BudgetManager =
  config :: BudgetConfig
  agentAllocations :: "string \<rightharpoonup> AgentBudgetAllocation"

definition newBudgetManager :: "BudgetConfig \<Rightarrow> BudgetManager" where
  "newBudgetManager cfg = \<lparr> config = cfg, agentAllocations = Map.empty \<rparr>"

definition allocateToAgent :: "BudgetManager \<Rightarrow> string \<Rightarrow> int \<Rightarrow> BudgetManager" where
  "allocateToAgent bm agentId amount =
     bm\<lparr>agentAllocations := (agentAllocations bm)
          (agentId \<mapsto> \<lparr> alloc_agentId = agentId, allocated = amount, reserved = 0 \<rparr>)\<rparr>"

text \<open>
  A denial's reason is a message that quotes the limit it hit, formatted in dollars; the
  model keeps which message it is and the limit quoted.
\<close>

datatype denial_reason =
    ExceedsPerRequestLimit int
  | WouldExceedDailyLimit int
  | WouldExceedTotalBudget int
  | WouldExceedAgentAllocation int

record approval =
  allowed :: bool
  reason :: "denial_reason option"

definition canApprove ::
  "string \<Rightarrow> 'p PaymentLedger \<Rightarrow> BudgetManager \<Rightarrow> string \<Rightarrow> int \<Rightarrow> approval" where
  "canApprove today l bm agentId amount =
     (if amount > perRequestLimit (config bm) then
        \<lparr> allowed = False, reason = Some (ExceedsPerRequestLimit (perRequestLimit (config bm))) \<rparr>
      else if getTodaySpending today l + amount > dailyLimit (config bm) then
        \<lparr> allowed = False, reason = Some (WouldExceedDailyLimit (dailyLimit (config bm))) \<rparr>
      else if getTotalSpent l + amount > totalBudget (config bm) then
        \<lparr> allowed = False, reason = Some (WouldExceedTotalBudget (totalBudget (config bm))) \<rparr>
      else
        (case agentAllocations bm agentId of
           Some allocation \<Rightarrow>
             let agentSpent = getSpentByAgent l agentId;
                 agentReserved = reserved allocation;
                 agentAvailable = allocated allocation - agentSpent - agentReserved
             in if amount > agentAvailable then
                  \<lparr> allowed = False,
                    reason = Some (WouldExceedAgentAllocation (allocated allocation)) \<rparr>
                else \<lparr> allowed = True, reason = None \<rparr>
         | None \<Rightarrow> \<lparr> allowed = True, reason = None \<rparr>))"

definition isAutoApprovable :: "BudgetManager \<Rightarrow> int \<Rightarrow> bool" where
  "isAutoApprovable bm amount \<longleftrightarrow> amount \<le> autoApproveUnder (config bm)"

text \<open>\<open>uuid\<close> is the value \<^verbatim>\<open>crypto.randomUUID()\<close> draws for this call.\<close>

definition reserve ::
  "string \<Rightarrow> string \<Rightarrow> 'p PaymentLedger \<Rightarrow> BudgetManager \<Rightarrow> string \<Rightarrow> int
     \<Rightarrow> string option \<times> BudgetManager" where
  "reserve uuid today l bm agentId amount =
     (case agentAllocations bm agentId of
        None \<Rightarrow>
          if \<not> allowed (canApprove today l bm agentId amount) then (None, bm)
          else (Some uuid, bm)
      | Some allocation \<Rightarrow>
          if \<not> allowed (canApprove today l bm agentId amount) then (None, bm)
          else (Some uuid,
                bm\<lparr>agentAllocations := (agentAllocations bm)
                     (agentId \<mapsto> allocation\<lparr>reserved := reserved allocation + amount\<rparr>)\<rparr>))"

definition releaseReservation :: "BudgetManager \<Rightarrow> string \<Rightarrow> int \<Rightarrow> BudgetManager" where
  "releaseReservation bm agentId amount =
     (case agentAllocations bm agentId of
        None \<Rightarrow> bm
      | Some allocation \<Rightarrow>
          bm\<lparr>agentAllocations := (agentAllocations bm)
               (agentId \<mapsto> allocation\<lparr>reserved :=
                   (if reserved allocation > amount then reserved allocation - amount else 0)\<rparr>)\<rparr>)"


section \<open>Circuit breaker (src/gateway/circuit-breaker.ts)\<close>

record CircuitBreakerConfig =
  failureThreshold :: int
  successThreshold :: int
  timeout :: int

record PartialCircuitBreakerConfig =
  opt_failureThreshold :: "int option"
  opt_successThreshold :: "int option"
  opt_timeout :: "int option"

datatype CircuitState = Closed | Open | HalfOpen

record CircuitBreaker =
  cb_name :: string
  cb_state :: CircuitState
  failures :: nat
  successes :: nat
  lastFailure :: "int option"
  cb_config :: CircuitBreakerConfig

definition newCircuitBreaker :: "string \<Rightarrow> PartialCircuitBreakerConfig option \<Rightarrow> CircuitBreaker" where
  "newCircuitBreaker name cfg =
     \<lparr> cb_name = name, cb_state = Closed, failures = 0, successes = 0, lastFailure = None,
       cb_config =
         \<lparr> failureThreshold =
             (case Option.bind cfg opt_failureThreshold of None \<Rightarrow> 5 | Some n \<Rightarrow> n),
           successThreshold =
             (case Option.bind cfg opt_successThreshold of None \<Rightarrow> 2 | Some n \<Rightarrow> n),
           timeout =
             (case Option.bind cfg opt_timeout of None \<Rightarrow> 30000 | Some n \<Rightarrow> n) \<rparr> \<rparr>"

definition onSuccess :: "CircuitBreaker \<Rightarrow> CircuitBreaker" where
  "onSuccess cb =
     (let cb1 = cb\<lparr>failures := 0\<rparr>
      in if cb_state cb1 = HalfOpen then
           let cb2 = cb1\<lparr>successes := successes cb1 + 1\<rparr>
           in if int (successes cb2) \<ge> successThreshold (cb_config cb2)
              then cb2\<lparr>cb_state := Closed, successes := 0\<rparr>
              else cb2
         else cb1)"

definition onFailure :: "int \<Rightarrow> CircuitBreaker \<Rightarrow> CircuitBreaker" where
  "onFailure now cb =
     (let cb1 = cb\<lparr>failures := failures cb + 1, lastFailure := Some now, successes := 0\<rparr>
      in if cb_state cb1 = HalfOpen then cb1\<lparr>cb_state := Open\<rparr>
         else if cb_state cb1 = Closed \<and> int (failures cb1) \<ge> failureThreshold (cb_config cb1)
              then cb1\<lparr>cb_state := Open\<rparr>
         else cb1)"

definition shouldAttemptReset :: "int \<Rightarrow> CircuitBreaker \<Rightarrow> bool" where
  "shouldAttemptReset now cb =
     (case lastFailure cb of
        None \<Rightarrow> True
      | Some t \<Rightarrow> now - t \<ge> timeout (cb_config cb))"

definition getTimeUntilReset :: "int \<Rightarrow> CircuitBreaker \<Rightarrow> int" where
  "getTimeUntilReset now cb =
     (case lastFailure cb of
        None \<Rightarrow> 0
      | Some t \<Rightarrow> max 0 (timeout (cb_config cb) - (now - t)))"

text \<open>
  The guarded operation is a promise-returning thunk.  Here it is a transformer of the
  outside world \<open>'w\<close> that settles with a value or with the thrown error; \<open>clock\<close>
  reads the time off the world, so \<^verbatim>\<open>onFailure\<close> sees the time at which the operation
  settled.  An operation that is not invoked leaves the world alone.
\<close>

datatype ('r, 'e) settled = Resolves 'r | Rejects 'e

datatype 'e execute_error = CircuitOpenError string int | OperationError 'e

definition execute ::
  "('w \<Rightarrow> int) \<Rightarrow> CircuitBreaker \<Rightarrow> ('w \<Rightarrow> ('r, 'e) settled \<times> 'w) \<Rightarrow> 'w
     \<Rightarrow> ('e execute_error + 'r) \<times> CircuitBreaker \<times> 'w" where
  "execute clock cb operation w =
     (let cb1 = (if cb_state cb = Open \<and> shouldAttemptReset (clock w) cb
                 then cb\<lparr>cb_state := HalfOpen\<rparr> else cb)
      in if cb_state cb1 = Open then
           (Inl (CircuitOpenError (cb_name cb1) (getTimeUntilReset (clock w) cb1)), cb1, w)
         else
           (case operation w of
              (Resolves result, w1) \<Rightarrow> (Inr result, onSuccess cb1, w1)
            | (Rejects err, w1) \<Rightarrow> (Inl (OperationError err), onFailure (clock w1) cb1, w1)))"

definition reset :: "CircuitBreaker \<Rightarrow> CircuitBreaker" where
  "reset cb = cb\<lparr>cb_state := Closed, failures := 0, successes := 0, lastFailure := None\<rparr>"

text \<open>Consecutive \<^verbatim>\<open>execute\<close> calls on one breaker, each awaited before the next.\<close>

fun execute_all ::
  "('w \<Rightarrow> int) \<Rightarrow> CircuitBreaker \<Rightarrow> ('w \<Rightarrow> ('r, 'e) settled \<times> 'w) list \<Rightarrow> 'w
     \<Rightarrow> ('e execute_error + 'r) list \<times> CircuitBreaker \<times> 'w" where
  "execute_all clock cb [] w = ([], cb, w)"
| "execute_all clock cb (operation # operations) w =
     (case execute clock cb operation w of
        (r, cb1, w1) \<Rightarrow>
          (case execute_all clock cb1 operations w1 of
             (rs, cb2, w2) \<Rightarrow> (r # rs, cb2, w2)))"

text \<open>The message of \<^verbatim>\<open>CircuitOpenError\<close>, with the decimal rendering of the seconds.\<close>

fun decimal :: "nat \<Rightarrow> string" where
  "decimal n =
     (if n < 10 then [''0123456789'' ! n]
      else decimal (n div 10) @ [''0123456789'' ! (n mod 10)])"

definition numberToString :: "int \<Rightarrow> string" where
  "numberToString i = (if i < 0 then ''-'' @ decimal (nat (- i)) else decimal (nat i))"

definition circuitOpenMessage :: "string \<Rightarrow> int \<Rightarrow> string" where
  "circuitOpenMessage circuitName retryAfterMs =
     ''Circuit breaker '' @ [CHR 0x27] @ circuitName @ [CHR 0x27] @ '' is open. Retry after ''
       @ numberToString (- ((- retryAfterMs) div 1000)) @ ''s''"

section \<open>Gateway (src/gateway/gateway.ts)\<close>

datatype AgentStatus = Healthy | Degraded | Offline

record ToolDescriptor =
  td_name :: string
  td_description :: string

record SubAgentDescriptor =
  sa_id :: string
  sa_status :: AgentStatus
  sa_tools :: "ToolDescriptor list"

datatype content_item = TextContent string | OtherContent string

record CallToolResult =
  isError :: bool
  content :: "content_item list"

text \<open>What a rejected remote call threw: an \<^verbatim>\<open>Error\<close> with its message, or another value.\<close>

datatype thrown = ErrorObject string | NonError

text \<open>
  The registry is read through \<^verbatim>\<open>getAgent\<close> and \<^verbatim>\<open>getClient\<close> only.  A client's
  \<^verbatim>\<open>callTool\<close> takes the tool name and the arguments \<open>'a\<close> and acts on the world.
\<close>

type_synonym ('w, 'a) Client = "string \<Rightarrow> 'a \<Rightarrow> 'w \<Rightarrow> (CallToolResult, thrown) settled \<times> 'w"

record ('w, 'a) SubAgentRegistry =
  agents :: "string \<rightharpoonup> SubAgentDescriptor"
  clients :: "string \<rightharpoonup> ('w, 'a) Client"

definition getAgent :: "('w, 'a) SubAgentRegistry \<Rightarrow> string \<Rightarrow> SubAgentDescriptor option" where
  "getAgent reg agentId = agents reg agentId"

definition getClient :: "('w, 'a) SubAgentRegistry \<Rightarrow> string \<Rightarrow> ('w, 'a) Client option" where
  "getClient reg agentId = clients reg agentId"

text \<open>\<open>'j\<close> is a parsed JSON value; \<open>rt_jsonParse\<close> is \<^verbatim>\<open>JSON.parse\<close>, \<open>None\<close> where it throws.\<close>

datatype 'j tool_data = DataText string | DataJson 'j

record 'j ToolResult =
  success :: bool
  data :: "'j tool_data option"
  error :: "string option"

record ('w, 'j) runtime =
  rt_clock :: "'w \<Rightarrow> int"
  rt_jsonParse :: "string \<Rightarrow> 'j option"

record GatewayConfig =
  defaultTimeout :: int
  circuitBreaker :: "PartialCircuitBreakerConfig option"

record Gateway =
  circuitBreakers :: "string \<rightharpoonup> CircuitBreaker"
  gw_config :: GatewayConfig

definition newGateway :: "int option \<Rightarrow> PartialCircuitBreakerConfig option \<Rightarrow> Gateway" where
  "newGateway cfg_defaultTimeout cfg_circuitBreaker =
     \<lparr> circuitBreakers = Map.empty,
       gw_config = \<lparr> defaultTimeout = (case cfg_defaultTimeout of None \<Rightarrow> 30000 | Some t \<Rightarrow> t),
                     circuitBreaker = cfg_circuitBreaker \<rparr> \<rparr>"

definition getCircuitBreaker :: "Gateway \<Rightarrow> string \<Rightarrow> CircuitBreaker \<times> Gateway" where
  "getCircuitBreaker g agentId =
     (case circuitBreakers g agentId of
        Some cb \<Rightarrow> (cb, g)
      | None \<Rightarrow>
          let cb = newCircuitBreaker agentId (circuitBreaker (gw_config g))
          in (cb, g\<lparr>circuitBreakers := (circuitBreakers g)(agentId \<mapsto> cb)\<rparr>))"

fun joinLines :: "string list \<Rightarrow> string" where
  "joinLines [] = []"
| "joinLines [s] = s"
| "joinLines (s # t # rest) = s @ [CHR 0x0A] @ joinLines (t # rest)"

fun textOf :: "content_item list \<Rightarrow> string list" where
  "textOf [] = []"
| "textOf (TextContent t # cs) = t # textOf cs"
| "textOf (OtherContent k # cs) = textOf cs"

definition failure :: "string \<Rightarrow> 'j ToolResult" where
  "failure msg = \<lparr> success = False, data = None, error = Some msg \<rparr>"

text \<open>
  The breaker object is shared through the gateway's map and mutated by \<^verbatim>\<open>execute\<close>;
  the model stores the breaker back under the agent's id.
\<close>

definition callTool ::
  "('w, 'j) runtime \<Rightarrow> ('w, 'a) SubAgentRegistry \<Rightarrow> Gateway \<Rightarrow> string \<Rightarrow> string \<Rightarrow> 'a \<Rightarrow> 'w
     \<Rightarrow> 'j ToolResult \<times> Gateway \<times> 'w" where
  "callTool rt reg g agentId toolName args w =
     (case getAgent reg agentId of
        None \<Rightarrow> (failure (''Agent not found: '' @ agentId), g, w)
      | Some agent \<Rightarrow>
        (case getClient reg agentId of
           None \<Rightarrow> (failure (''No connection to agent: '' @ agentId), g, w)
         | Some client \<Rightarrow>
           (case getCircuitBreaker g agentId of
              (cb, g1) \<Rightarrow>
              (case execute (rt_clock rt) cb (client toolName args) w of
                 (outcome, cb1, w1) \<Rightarrow>
                   let g2 = g1\<lparr>circuitBreakers := (circuitBreakers g1)(agentId \<mapsto> cb1)\<rparr>
                   in (case outcome of
                         Inr result \<Rightarrow>
                           let textContent = joinLines (textOf (content result))
                           in if isError result then
                                (failure (if textContent \<noteq> [] then textContent
                                          else ''Tool returned an error''), g2, w1)
                              else
                                (\<lparr> success = True,
                                   data = Some
                                     (if take 1 textContent = ''{'' \<or> take 1 textContent = ''[''
                                      then (case rt_jsonParse rt textContent of
                                              Some j \<Rightarrow> DataJson j
                                            | None \<Rightarrow> DataText textContent)
                                      else DataText textContent),
                                   error = None \<rparr>, g2, w1)
                       | Inl (CircuitOpenError circuitName retryAfterMs) \<Rightarrow>
                           (failure (''Agent '' @ agentId @ '' is temporarily unavailable. ''
                                       @ circuitOpenMessage circuitName retryAfterMs), g2, w1)
                       | Inl (OperationError (ErrorObject message)) \<Rightarrow> (failure message, g2, w1)
                       | Inl (OperationError NonError) \<Rightarrow>
                           (failure ''Unknown error occurred'', g2, w1))))))"

text \<open>The \<^verbatim>\<open>for\<close> loop of \<^verbatim>\<open>callToolWithFallback\<close>; \<open>None\<close> when it runs to its end.\<close>

fun callToolWithFallback_loop ::
  "('w, 'j) runtime \<Rightarrow> ('w, 'a) SubAgentRegistry \<Rightarrow> string \<Rightarrow> 'a \<Rightarrow> string list \<Rightarrow> Gateway \<Rightarrow> 'w
     \<Rightarrow> 'j ToolResult option \<times> Gateway \<times> 'w" where
  "callToolWithFallback_loop rt reg toolName args [] g w = (None, g, w)"
| "callToolWithFallback_loop rt reg toolName args (fallbackId # rest) g w =
     (case getAgent reg fallbackId of
        None \<Rightarrow> callToolWithFallback_loop rt reg toolName args rest g w
      | Some fallbackAgent \<Rightarrow>
          if sa_status fallbackAgent \<noteq> Healthy then
            callToolWithFallback_loop rt reg toolName args rest g w
          else if \<not> list_ex (\<lambda>t. td_name t = toolName) (sa_tools fallbackAgent) then
            callToolWithFallback_loop rt reg toolName args rest g w
          else
            (case callTool rt reg g fallbackId toolName args w of
               (fallbackResult, g1, w1) \<Rightarrow>
                 if success fallbackResult then (Some fallbackResult, g1, w1)
                 else callToolWithFallback_loop rt reg toolName args rest g1 w1))"

definition callToolWithFallback ::
  "('w, 'j) runtime \<Rightarrow> ('w, 'a) SubAgentRegistry \<Rightarrow> Gateway \<Rightarrow> string \<Rightarrow> string \<Rightarrow> 'a
     \<Rightarrow> string list \<Rightarrow> 'w \<Rightarrow> 'j ToolResult \<times> Gateway \<times> 'w" where
  "callToolWithFallback rt reg g primaryAgentId toolName args fallbackAgentIds w =
     (case callTool rt reg g primaryAgentId toolName args w of
        (primaryResult, g1, w1) \<Rightarrow>
          if success primaryResult then (primaryResult, g1, w1)
          else
            (case callToolWithFallback_loop rt reg toolName args fallbackAgentIds g1 w1 of
               (Some fallbackResult, g2, w2) \<Rightarrow> (fallbackResult, g2, w2)
             | (None, g2, w2) \<Rightarrow>
                 (failure (''All agents failed for tool '' @ toolName @ ''. Primary: ''
                             @ primaryAgentId), g2, w2)))"

section \<open>Treasurer (src/treasurer/master-treasurer.ts)\<close>

record PendingContext =
  ctx_agentId :: string
  ctx_toolName :: string

record 'p Authorization =
  auth_payment :: 'p
  authorizationId :: string

text \<open>
  The treasurer owns the ledger and hands the same object to its budget manager.  The wallet
  is used by \<^verbatim>\<open>onPaymentRequired\<close> only and is left out.
\<close>

record 'p MasterTreasurer =
  budgetManager :: BudgetManager
  ledger :: "'p PaymentLedger"
  pendingContexts :: "string \<rightharpoonup> PendingContext"

definition newMasterTreasurer :: "BudgetConfig \<Rightarrow> 'p MasterTreasurer" where
  "newMasterTreasurer budgetConfig =
     \<lparr> budgetManager = newBudgetManager budgetConfig, ledger = newPaymentLedger,
       pendingContexts = Map.empty \<rparr>"

definition allocateBudgetToAgent :: "'p MasterTreasurer \<Rightarrow> string \<Rightarrow> int \<Rightarrow> 'p MasterTreasurer" where
  "allocateBudgetToAgent t agentId amount =
     t\<lparr>budgetManager := allocateToAgent (budgetManager t) agentId amount\<rparr>"

text \<open>
  Of the payment context the code reads the method, \<^verbatim>\<open>params.name\<close>,
  \<^verbatim>\<open>params.agentId\<close>, \<^verbatim>\<open>metadata.agentId\<close> and \<^verbatim>\<open>metadata.toolName\<close>, each
  possibly absent; a value counts when it is present and not the empty string.
\<close>

record PaymentContext =
  ctx_method :: "string option"
  params_name :: "string option"
  params_agentId :: "string option"
  metadata_agentId :: "string option"
  metadata_toolName :: "string option"

definition truthy :: "string option \<Rightarrow> bool" where
  "truthy v = (case v of None \<Rightarrow> False | Some s \<Rightarrow> s \<noteq> [])"

definition extractAgentId :: "PaymentContext option \<Rightarrow> string" where
  "extractAgentId context =
     (case context of
        None \<Rightarrow> ''unknown''
      | Some c \<Rightarrow>
          if truthy (metadata_agentId c) then the (metadata_agentId c)
          else if truthy (params_agentId c) then the (params_agentId c)
          else ''unknown'')"

definition extractToolName :: "PaymentContext option \<Rightarrow> string" where
  "extractToolName context =
     (case context of
        None \<Rightarrow> ''unknown''
      | Some c \<Rightarrow>
          if ctx_method c = Some ''tools/call'' \<and> truthy (params_name c) then the (params_name c)
          else if truthy (metadata_toolName c) then the (metadata_toolName c)
          else ''unknown'')"

text \<open>
  \<open>createPayment\<close> is the wallet's answer to a requirement, \<open>None\<close> where the promise
  rejects; \<open>reservationUuid\<close> and \<open>authorizationUuid\<close> are the two identifiers drawn.
  The test \<^verbatim>\<open>isAutoApprovable\<close> between the check and the reservation only logs.
\<close>

definition onPaymentRequired ::
  "string \<Rightarrow> string \<Rightarrow> int \<Rightarrow> string \<Rightarrow> (PaymentRequirements \<Rightarrow> 'p option) \<Rightarrow> 'p MasterTreasurer
     \<Rightarrow> PaymentRequirements list \<Rightarrow> PaymentContext option
     \<Rightarrow> 'p Authorization option \<times> 'p MasterTreasurer" where
  "onPaymentRequired reservationUuid authorizationUuid now today createPayment t requirements
       context =
     (case requirements of
        [] \<Rightarrow> (None, t)
      | requirement # others \<Rightarrow>
          let amount = maxAmountRequired requirement;
              agentId = extractAgentId context;
              toolName = extractToolName context
          in if \<not> allowed (canApprove today (ledger t) (budgetManager t) agentId amount)
             then (None, t)
             else
               (case reserve reservationUuid today (ledger t) (budgetManager t) agentId amount of
                  (reservationId, bm1) \<Rightarrow>
                    if \<not> truthy reservationId then (None, t\<lparr>budgetManager := bm1\<rparr>)
                    else
                      (case createPayment requirement of
                         Some payment \<Rightarrow>
                           (Some \<lparr> auth_payment = payment,
                                   authorizationId = authorizationUuid \<rparr>,
                            t\<lparr>budgetManager := bm1,
                              ledger := recordAuthorization now (ledger t) authorizationUuid
                                          agentId toolName requirement payment,
                              pendingContexts := (pendingContexts t)
                                (authorizationUuid \<mapsto>
                                   \<lparr> ctx_agentId = agentId, ctx_toolName = toolName \<rparr>)\<rparr>)
                       | None \<Rightarrow>
                           (None, t\<lparr>budgetManager := releaseReservation bm1 agentId amount\<rparr>))))"

text \<open>The status is the string the payment client delivers.\<close>

definition ledgerStatusOf :: "string \<Rightarrow> entry_status" where
  "ledgerStatusOf status =
     (if status = ''accepted'' then Accepted
      else if status = ''rejected'' \<or> status = ''declined'' then Rejected
      else if status = ''error'' then Error
      else Pending)"

definition onStatus ::
  "string \<Rightarrow> 'p MasterTreasurer \<Rightarrow> string \<Rightarrow> 'p Authorization \<Rightarrow> 'p MasterTreasurer" where
  "onStatus today t status authorization =
     (let ident = authorizationId authorization;
          pendingContext = pendingContexts t ident;
          ledgerStatus = ledgerStatusOf status;
          ledger1 = updateStatus today (ledger t) ident ledgerStatus None;
          budgetManager1 =
            (if status \<noteq> ''accepted'' \<and> status \<noteq> ''sending'' \<and> pendingContext \<noteq> None then
               (case getEntry ledger1 ident of
                  Some entry \<Rightarrow>
                    releaseReservation (budgetManager t)
                      (ctx_agentId (the pendingContext)) (pe_amount entry)
                | None \<Rightarrow> budgetManager t)
             else budgetManager t);
          pendingContexts1 =
            (if status \<in> set [''accepted'', ''rejected'', ''declined'', ''error'']
             then (pendingContexts t)(ident := None) else pendingContexts t)
      in t\<lparr>budgetManager := budgetManager1, ledger := ledger1,
           pendingContexts := pendingContexts1\<rparr>)"

section \<open>Reference definitions for the properties\<close>

text \<open>
  The budget checks in the order the specification lists them, each with the reason of its
  denial, and the verdict of the first one that fails.
\<close>

definition budget_checks ::
  "string \<Rightarrow> 'p PaymentLedger \<Rightarrow> BudgetManager \<Rightarrow> string \<Rightarrow> int \<Rightarrow> (bool \<times> denial_reason) list" where
  "budget_checks today l bm agentId amount =
     [ (amount \<le> perRequestLimit (config bm),
          ExceedsPerRequestLimit (perRequestLimit (config bm))),
       (getTodaySpending today l + amount \<le> dailyLimit (config bm),
          WouldExceedDailyLimit (dailyLimit (config bm))),
       (getTotalSpent l + amount \<le> totalBudget (config bm),
          WouldExceedTotalBudget (totalBudget (config bm))) ]
     @ (case agentAllocations bm agentId of
          None \<Rightarrow> []
        | Some allocation \<Rightarrow>
            [ (allocated allocation - getSpentByAgent l agentId - reserved allocation \<ge> amount,
                 WouldExceedAgentAllocation (allocated allocation)) ])"

fun first_failure :: "(bool \<times> denial_reason) list \<Rightarrow> approval" where
  "first_failure [] = \<lparr> allowed = True, reason = None \<rparr>"
| "first_failure ((ok, r) # checks) =
     (if ok then first_failure checks else \<lparr> allowed = False, reason = Some r \<rparr>)"

text \<open>
  A call of \<^verbatim>\<open>reserve\<close> or \<^verbatim>\<open>releaseReservation\<close> on one budget manager.  A
  \<^verbatim>\<open>reserve\<close> call carries the token drawn, the day and the ledger as they are when it
  is made, so the ledger may change between the calls of a sequence.
\<close>

datatype 'p budget_call =
    ReserveCall string string "'p PaymentLedger" string int
  | ReleaseCall string int

fun apply_call :: "BudgetManager \<Rightarrow> 'p budget_call \<Rightarrow> BudgetManager" where
  "apply_call bm (ReserveCall uuid today l agentId amount) =
     snd (reserve uuid today l bm agentId amount)"
| "apply_call bm (ReleaseCall agentId amount) = releaseReservation bm agentId amount"

definition apply_calls :: "BudgetManager \<Rightarrow> 'p budget_call list \<Rightarrow> BudgetManager" where
  "apply_calls bm calls = foldl apply_call bm calls"

fun reserve_amount_ok :: "'p budget_call \<Rightarrow> bool" where
  "reserve_amount_ok (ReserveCall uuid today l agentId amount) \<longleftrightarrow> 0 \<le> amount"
| "reserve_amount_ok (ReleaseCall agentId amount) \<longleftrightarrow> True"

definition reservedOf :: "BudgetManager \<Rightarrow> string \<Rightarrow> int option" where
  "reservedOf bm agentId = map_option reserved (agentAllocations bm agentId)"

text \<open>
  The ledger as its operations leave it: every key of the entry map occurs once (it is a
  \<^verbatim>\<open>Map\<close>) and is the identifier of the entry stored under it.
\<close>

definition ledger_inv :: "'p PaymentLedger \<Rightarrow> bool" where
  "ledger_inv l \<longleftrightarrow>
     distinct (map fst (entries l)) \<and> list_all (\<lambda>(k, entry). pe_id entry = k) (entries l)"

text \<open>
  The fallback rule in the specification's words: a fallback id qualifies when the registry
  has a descriptor for it that is healthy and exposes the operation; the qualifying ids are
  tried in order until one succeeds.
\<close>

definition qualifies :: "('w, 'a) SubAgentRegistry \<Rightarrow> string \<Rightarrow> string \<Rightarrow> bool" where
  "qualifies reg toolName fallbackId =
     (case getAgent reg fallbackId of
        None \<Rightarrow> False
      | Some agent \<Rightarrow> sa_status agent = Healthy \<and> toolName \<in> set (map td_name (sa_tools agent)))"

fun first_success ::
  "('w, 'j) runtime \<Rightarrow> ('w, 'a) SubAgentRegistry \<Rightarrow> string \<Rightarrow> 'a \<Rightarrow> string list \<Rightarrow> Gateway \<Rightarrow> 'w
     \<Rightarrow> 'j ToolResult option \<times> Gateway \<times> 'w" where
  "first_success rt reg toolName args [] g w = (None, g, w)"
| "first_success rt reg toolName args (agentId # rest) g w =
     (case callTool rt reg g agentId toolName args w of
        (result, g1, w1) \<Rightarrow>
          if success result then (Some result, g1, w1)
          else first_success rt reg toolName args rest g1 w1)"

section \<open>Example states\<close>

text \<open>
  The scenario of the specification, in small numbers: a total budget of 100, a daily limit
  of 10, a per-request limit of 5, and agent \<open>A\<close> allocated 5.
\<close>

definition example_config :: BudgetConfig where
  "example_config =
     \<lparr> totalBudget = 100, dailyLimit = 10, perRequestLimit = 5, autoApproveUnder = 1 \<rparr>"

definition example_budget :: BudgetManager where
  "example_budget = allocateToAgent (newBudgetManager example_config) ''A'' 5"

definition fresh_ledger :: "unit PaymentLedger" where
  "fresh_ledger = newPaymentLedger"

text \<open>A ledger whose only entry, \<open>a\<close> of agent \<open>A\<close> over 5, has been accepted.\<close>

definition example_ledger :: "unit PaymentLedger" where
  "example_ledger =
     updateStatus ''2025-01-01''
       (recordAuthorization 0 newPaymentLedger ''a'' ''A'' ''search''
          \<lparr> maxAmountRequired = 5 \<rparr> ())
       ''a'' Accepted None"

text \<open>
  A treasurer that has authorized one payment of 3 for agent \<open>A\<close>: the reservation is
  held, the entry \<open>x1\<close> is pending and its correlation is remembered.  The wallet hands
  the requirement back as the payment.
\<close>

definition example_context :: PaymentContext where
  "example_context =
     \<lparr> ctx_method = None, params_name = None, params_agentId = None,
       metadata_agentId = Some ''A'', metadata_toolName = Some ''search'' \<rparr>"

definition example_treasurer :: "PaymentRequirements MasterTreasurer" where
  "example_treasurer =
     snd (onPaymentRequired ''r1'' ''x1'' 0 ''2025-01-01'' Some
            (allocateBudgetToAgent (newMasterTreasurer example_config) ''A'' 5)
            [\<lparr> maxAmountRequired = 3 \<rparr>] (Some example_context))"

definition example_authorization :: "PaymentRequirements Authorization" where
  "example_authorization =
     \<lparr> auth_payment = \<lparr> maxAmountRequired = 3 \<rparr>, authorizationId = ''x1'' \<rparr>"

text \<open>
  Operations on a world that is the clock reading itself, and a breaker with the default
  thresholds after five of the failing ones at time 0.
\<close>

definition always_fails :: "int \<Rightarrow> (string, string) settled \<times> int" where
  "always_fails = Pair (Rejects ''down'')"

definition always_succeeds :: "int \<Rightarrow> (string, string) settled \<times> int" where
  "always_succeeds = Pair (Resolves ''ok'')"

definition tripped_breaker :: CircuitBreaker where
  "tripped_breaker =
     fst (snd (execute_all id (newCircuitBreaker ''A'' None)
                 [always_fails, always_fails, always_fails, always_fails, always_fails] 0))"

text \<open>
  A registry with a primary \<open>P\<close> whose remote call fails, and three fallbacks that would
  answer: \<open>F1\<close> is offline, \<open>F2\<close> does not expose \<open>search\<close>, \<open>F3\<close> is healthy and
  does.  No descriptor exists for any other id.
\<close>

definition search_tool :: ToolDescriptor where
  "search_tool = \<lparr> td_name = ''search'', td_description = ''full-text search'' \<rparr>"

definition lookup_tool :: ToolDescriptor where
  "lookup_tool = \<lparr> td_name = ''lookup'', td_description = ''lookup by key'' \<rparr>"

definition client_down :: "(int, unit) Client" where
  "client_down toolName args = Pair (Rejects (ErrorObject ''connection refused''))"

definition client_up :: "(int, unit) Client" where
  "client_up toolName args =
     Pair (Resolves \<lparr> isError = False, content = [TextContent ''42''] \<rparr>)"

definition example_registry :: "(int, unit) SubAgentRegistry" where
  "example_registry =
     \<lparr> agents =
         [''P'' \<mapsto> \<lparr> sa_id = ''P'', sa_status = Healthy, sa_tools = [search_tool] \<rparr>,
          ''F1'' \<mapsto> \<lparr> sa_id = ''F1'', sa_status = Offline, sa_tools = [search_tool] \<rparr>,
          ''F2'' \<mapsto> \<lparr> sa_id = ''F2'', sa_status = Healthy, sa_tools = [lookup_tool] \<rparr>,
          ''F3'' \<mapsto> \<lparr> sa_id = ''F3'', sa_status = Healthy,
                       sa_tools = [lookup_tool, search_tool] \<rparr>],
       clients =
         [''P'' \<mapsto> client_down, ''F1'' \<mapsto> client_up, ''F2'' \<mapsto> client_up,
          ''F3'' \<mapsto> client_up] \<rparr>"

definition example_runtime :: "(int, unit) runtime" where
  "example_runtime = \<lparr> rt_clock = id, rt_jsonParse = Map.empty \<rparr>"

section \<open>Evaluation of the example states\<close>

lemmas budget_defs = example_config_def example_budget_def fresh_ledger_def
  newBudgetManager_def allocateToAgent_def reserve_def releaseReservation_def canApprove_def
  reservedOf_def apply_calls_def

lemmas ledger_defs = example_ledger_def updateStatus_def recordAuthorization_def
  addToDailySpending_def getEntry_def getTodaySpending_def getTotalSpent_def
  getSpentByAgent_def newPaymentLedger_def map_values_def Let_def

lemmas treasurer_defs = example_treasurer_def example_authorization_def
  example_context_def onPaymentRequired_def allocateBudgetToAgent_def
  newMasterTreasurer_def extractAgentId_def extractToolName_def truthy_def

lemmas breaker_defs = tripped_breaker_def always_fails_def always_succeeds_def
  newCircuitBreaker_def execute_def onSuccess_def onFailure_def shouldAttemptReset_def
  getTimeUntilReset_def Let_def

lemmas gateway_defs = example_registry_def example_runtime_def search_tool_def
  lookup_tool_def client_down_def client_up_def newGateway_def callTool_def getAgent_def
  getClient_def getCircuitBreaker_def failure_def qualifies_def

lemma tripped_breaker_eval:
  "tripped_breaker =
     \<lparr> cb_name = ''A'', cb_state = Open, failures = 5, successes = 0, lastFailure = Some 0,
       cb_config = \<lparr> failureThreshold = 5, successThreshold = 2, timeout = 30000 \<rparr> \<rparr>"
  by (simp add: breaker_defs)

lemma example_treasurer_eval:
  "reservedOf (budgetManager example_treasurer) ''A'' = Some 3
   \<and> map_option pe_status (getEntry (ledger example_treasurer) ''x1'') = Some Pending
   \<and> map_option pe_amount (getEntry (ledger example_treasurer) ''x1'') = Some 3
   \<and> map_option ctx_agentId (pendingContexts example_treasurer ''x1'') = Some ''A''"
  by (simp add: treasurer_defs budget_defs ledger_defs)

section \<open>Properties of the ledger\<close>

subsection \<open>The entry map\<close>

lemma map_get_map_set_same: "map_get (map_set m k v) k = Some v"
  by (induction m k v rule: map_set.induct) auto

lemma map_get_map_set_other: "k' \<noteq> k \<Longrightarrow> map_get (map_set m k v) k' = map_get m k'"
  by (induction m k v rule: map_set.induct) auto

lemma map_set_keys:
  "map fst (map_set m k v) = (if k \<in> set (map fst m) then map fst m else map fst m @ [k])"
  by (induction m k v rule: map_set.induct) auto

lemma map_set_fresh: "k \<notin> fst ` set m \<Longrightarrow> map_set m k v = m @ [(k, v)]"
  by (induction m k v rule: map_set.induct) auto

lemma map_set_inv:
  "list_all (\<lambda>(k, entry). pe_id entry = k) m \<Longrightarrow> pe_id e = k \<Longrightarrow>
   list_all (\<lambda>(k, entry). pe_id entry = k) (map_set m k e)"
  by (induction m k e rule: map_set.induct) auto

lemma map_get_inv:
  "list_all (\<lambda>(k, entry). pe_id entry = k) m \<Longrightarrow> map_get m k = Some e \<Longrightarrow> pe_id e = k"
  by (induction m k rule: map_get.induct) (auto split: if_splits)

subsection \<open>Every ledger the operations build satisfies the invariant\<close>

lemma ledger_inv_new: "ledger_inv newPaymentLedger"
  by (simp add: ledger_inv_def newPaymentLedger_def)

lemma ledger_inv_recordAuthorization:
  "ledger_inv l \<Longrightarrow> ledger_inv (recordAuthorization now l ident agentId toolName reqs payment)"
  by (simp add: ledger_inv_def recordAuthorization_def map_set_keys map_set_inv)

lemma ledger_inv_updateStatus:
  "ledger_inv l \<Longrightarrow> ledger_inv (updateStatus today l ident status err)"
  by (auto simp add: ledger_inv_def updateStatus_def addToDailySpending_def map_set_keys Let_def
      intro!: map_set_inv dest: map_get_inv split: option.splits)

lemma import_fold_inv:
  "distinct (map fst acc) \<Longrightarrow> list_all (\<lambda>(k, entry). pe_id entry = k) acc \<Longrightarrow>
   distinct (map fst (foldl (\<lambda>m entry. map_set m (pe_id entry) entry) acc es))
   \<and> list_all (\<lambda>(k, entry). pe_id entry = k)
       (foldl (\<lambda>m entry. map_set m (pe_id entry) entry) acc es)"
  by (induction es arbitrary: acc) (simp_all add: map_set_keys map_set_inv)

lemma ledger_inv_importFromJson: "ledger_inv (importFromJson l doc)"
  using import_fold_inv [of "[]" "doc_entries doc"]
  by (simp add: ledger_inv_def importFromJson_def)

subsection \<open>Status updates\<close>

text \<open>
  C1, as the code has it.  \<^verbatim>\<open>updateStatus(id, status, error?)\<close> leaves the ledger as it
  is when no entry has the identifier.  On an entry that exists, pending or already
  terminal, it sets the status to the one given, replaces the error text when a non-empty
  one is given and keeps it otherwise, and adds the entry's amount to the bucket of the
  current day whenever the status given is accepted; for any other status that bucket is
  as before.
\<close>

theorem updateStatus_overwrites:
  "(getEntry l ident = None \<longrightarrow> updateStatus today l ident status err = l)
   \<and> (getEntry l ident = Some entry \<longrightarrow>
        getEntry (updateStatus today l ident status err) ident =
          Some (entry\<lparr>pe_status := status,
                      pe_error := (if truthy err then err else pe_error entry)\<rparr>)
        \<and> getTodaySpending today (updateStatus today l ident status err) =
            (if status = Accepted \<and> today \<noteq> [] then getTodaySpending today l + pe_amount entry
             else getTodaySpending today l))"
  by (auto simp add: getEntry_def updateStatus_def addToDailySpending_def getTodaySpending_def
      truthy_def map_get_map_set_same Let_def split: option.splits)

text \<open>
  On the example ledger: an unknown identifier changes nothing; the accepted entry \<open>a\<close>
  is moved to rejected by a later call, and a second accepted status brings the day's bucket
  from 5 to 10.
\<close>

theorem updateStatus_overwrites_witness:
  "getEntry example_ledger ''zz'' = None
   \<and> updateStatus ''2025-01-01'' example_ledger ''zz'' Accepted None = example_ledger
   \<and> map_option pe_status (getEntry example_ledger ''a'') = Some Accepted
   \<and> map_option pe_status
       (getEntry (updateStatus ''2025-01-01'' example_ledger ''a'' Rejected (Some ''late'')) ''a'')
       = Some Rejected
   \<and> getTodaySpending ''2025-01-01''
       (updateStatus ''2025-01-01'' example_ledger ''a'' Accepted None) = 10"
proof -
  have h: "getEntry example_ledger ''zz'' = None"
    by (simp add: ledger_defs)
  obtain entry where e: "getEntry example_ledger ''a'' = Some entry"
    "pe_status entry = Accepted" "pe_amount entry = 5"
    by (simp add: ledger_defs)
  have v: "getTodaySpending ''2025-01-01'' example_ledger = 5"
    by (simp add: ledger_defs)
  from updateStatus_overwrites [of example_ledger "''zz''" "''2025-01-01''" Accepted None entry]
    updateStatus_overwrites
      [of example_ledger "''a''" "''2025-01-01''" Rejected "Some ''late''" entry]
    updateStatus_overwrites [of example_ledger "''a''" "''2025-01-01''" Accepted None entry]
    h e v
  show ?thesis by simp
qed

text \<open>
  The claim as written fails: entry \<open>a\<close> is accepted and the day's bucket holds 5; a second
  \<^verbatim>\<open>updateStatus(a, accepted)\<close> credits the bucket again, and
  \<^verbatim>\<open>updateStatus(a, rejected, "late")\<close> changes the status and the error text of the
  terminal entry.
\<close>

theorem updateStatus_terminal_counterexample:
  "map_option pe_status (getEntry example_ledger ''a'') = Some Accepted
   \<and> getTodaySpending ''2025-01-01'' example_ledger = 5
   \<and> getTodaySpending ''2025-01-01''
       (updateStatus ''2025-01-01'' example_ledger ''a'' Accepted None) = 10
   \<and> map_option pe_status
       (getEntry (updateStatus ''2025-01-01'' example_ledger ''a'' Rejected (Some ''late'')) ''a'')
       = Some Rejected
   \<and> map_option pe_error
       (getEntry (updateStatus ''2025-01-01'' example_ledger ''a'' Rejected (Some ''late'')) ''a'')
       = Some (Some ''late'')"
  by (simp add: ledger_defs)

subsection \<open>Recording an authorization\<close>

text \<open>
  C8, as the code has it.  \<^verbatim>\<open>recordAuthorization\<close> has no failing path: it always stores
  a pending entry built from its arguments under the identifier.  An entry that was stored
  under the same identifier is replaced, in its place; an identifier that is new goes to the
  end of the map.  The entries under every other identifier and the daily buckets are
  untouched.
\<close>

theorem recordAuthorization_overwrites:
  "getEntry (recordAuthorization now l ident agentId toolName reqs payment) ident =
     Some \<lparr> pe_id = ident, pe_timestamp = now, pe_agentId = agentId, pe_toolName = toolName,
            pe_amount = maxAmountRequired reqs, pe_status = Pending,
            pe_requirements = Some reqs, pe_payment = Some payment, pe_error = None \<rparr>
   \<and> (\<forall>other. other \<noteq> ident \<longrightarrow>
         getEntry (recordAuthorization now l ident agentId toolName reqs payment) other
           = getEntry l other)
   \<and> map fst (entries (recordAuthorization now l ident agentId toolName reqs payment)) =
       (if ident \<in> set (map fst (entries l)) then map fst (entries l)
        else map fst (entries l) @ [ident])
   \<and> dailySpending (recordAuthorization now l ident agentId toolName reqs payment)
       = dailySpending l"
  by (simp add: getEntry_def recordAuthorization_def map_get_map_set_same
      map_get_map_set_other map_set_keys)

text \<open>On the example ledger, recording \<open>b\<close> adds a pending entry and leaves \<open>a\<close> alone.\<close>

theorem recordAuthorization_overwrites_witness:
  "''b'' \<noteq> ''a''
   \<and> map_option pe_status
       (getEntry (recordAuthorization 1 example_ledger ''b'' ''B'' ''lookup''
                    \<lparr> maxAmountRequired = 7 \<rparr> ()) ''b'') = Some Pending
   \<and> getEntry (recordAuthorization 1 example_ledger ''b'' ''B'' ''lookup''
                 \<lparr> maxAmountRequired = 7 \<rparr> ()) ''a'' = getEntry example_ledger ''a''
   \<and> map fst (entries (recordAuthorization 1 example_ledger ''b'' ''B'' ''lookup''
                 \<lparr> maxAmountRequired = 7 \<rparr> ())) = [''a'', ''b'']"
  using recordAuthorization_overwrites
    [of 1 example_ledger "''b''" "''B''" "''lookup''" "\<lparr> maxAmountRequired = 7 \<rparr>" "()"]
  by (simp add: ledger_defs)

text \<open>
  The claim as written fails: recording under the identifier \<open>a\<close>, which exists and is
  accepted, returns normally and replaces that entry by a pending one of another agent, so
  the total spent falls from 5 to 0.
\<close>

theorem recordAuthorization_duplicate_counterexample:
  "map_option pe_status (getEntry example_ledger ''a'') = Some Accepted
   \<and> getTotalSpent example_ledger = 5
   \<and> map_option pe_status
       (getEntry (recordAuthorization 1 example_ledger ''a'' ''B'' ''lookup''
                    \<lparr> maxAmountRequired = 7 \<rparr> ()) ''a'') = Some Pending
   \<and> map_option pe_agentId
       (getEntry (recordAuthorization 1 example_ledger ''a'' ''B'' ''lookup''
                    \<lparr> maxAmountRequired = 7 \<rparr> ()) ''a'') = Some ''B''
   \<and> getTotalSpent (recordAuthorization 1 example_ledger ''a'' ''B'' ''lookup''
                      \<lparr> maxAmountRequired = 7 \<rparr> ()) = 0"
  by (simp add: ledger_defs)

subsection \<open>Export and import\<close>

lemma import_fold_append:
  "distinct (map fst m) \<Longrightarrow> list_all (\<lambda>(k, entry). pe_id entry = k) m \<Longrightarrow>
   fst ` set acc \<inter> fst ` set m = {} \<Longrightarrow>
   foldl (\<lambda>m entry. map_set m (pe_id entry) entry) acc (map snd m) = acc @ m"
proof (induction m arbitrary: acc)
  case Nil
  then show ?case by simp
next
  case (Cons p m)
  obtain k e where p: "p = (k, e)" by (cases p)
  from Cons.prems p have ke: "pe_id e = k" and fresh: "k \<notin> fst ` set acc" by auto
  have step: "map_set acc (pe_id e) e = acc @ [(k, e)]"
    using map_set_fresh [OF fresh] ke by simp
  have disj: "fst ` set (acc @ [(k, e)]) \<inter> fst ` set m = {}"
    using Cons.prems p by auto
  have "foldl (\<lambda>m entry. map_set m (pe_id entry) entry) (acc @ [(k, e)]) (map snd m)
          = (acc @ [(k, e)]) @ m"
    using Cons.IH [OF _ _ disj] Cons.prems p by simp
  then show ?case using p step by simp
qed

text \<open>
  C6.  For every ledger \<open>l0\<close> the operations can build, importing the export of \<open>l0\<close> into
  any ledger \<open>l\<close> gives \<open>l0\<close> itself, whatever \<open>l\<close> held: the entries and the daily buckets
  are replaced, and the total spent, the amount spent by every agent and the spending of
  every day are those of \<open>l0\<close>.
\<close>

theorem import_export_roundtrip:
  assumes "ledger_inv l0"
  shows "importFromJson l (exportToJson l0) = l0
         \<and> getTotalSpent (importFromJson l (exportToJson l0)) = getTotalSpent l0
         \<and> (\<forall>agentId. getSpentByAgent (importFromJson l (exportToJson l0)) agentId
                         = getSpentByAgent l0 agentId)
         \<and> (\<forall>today. getTodaySpending today (importFromJson l (exportToJson l0))
                       = getTodaySpending today l0)"
proof -
  have "foldl (\<lambda>m entry. map_set m (pe_id entry) entry) [] (map snd (entries l0)) = [] @ entries l0"
    using assms by (intro import_fold_append) (simp_all add: ledger_inv_def)
  then have "importFromJson l (exportToJson l0) = l0"
    by (simp add: importFromJson_def exportToJson_def map_values_def)
  then show ?thesis by simp
qed

text \<open>
  The export of the example ledger, imported into a ledger that holds another entry, gives
  the example ledger back.
\<close>

theorem import_export_roundtrip_witness:
  "ledger_inv example_ledger
   \<and> getEntry (recordAuthorization 1 fresh_ledger ''b'' ''B'' ''lookup''
                 \<lparr> maxAmountRequired = 7 \<rparr> ()) ''b'' \<noteq> None
   \<and> importFromJson
       (recordAuthorization 1 fresh_ledger ''b'' ''B'' ''lookup'' \<lparr> maxAmountRequired = 7 \<rparr> ())
       (exportToJson example_ledger) = example_ledger
   \<and> getEntry example_ledger ''b'' = None
   \<and> getTotalSpent (importFromJson
       (recordAuthorization 1 fresh_ledger ''b'' ''B'' ''lookup'' \<lparr> maxAmountRequired = 7 \<rparr> ())
       (exportToJson example_ledger)) = 5
   \<and> getSpentByAgent (importFromJson
       (recordAuthorization 1 fresh_ledger ''b'' ''B'' ''lookup'' \<lparr> maxAmountRequired = 7 \<rparr> ())
       (exportToJson example_ledger)) ''A'' = 5
   \<and> getTodaySpending ''2025-01-01'' (importFromJson
       (recordAuthorization 1 fresh_ledger ''b'' ''B'' ''lookup'' \<lparr> maxAmountRequired = 7 \<rparr> ())
       (exportToJson example_ledger)) = 5"
proof -
  have h: "ledger_inv example_ledger"
    by (simp add: ledger_inv_def ledger_defs)
  have v: "getTotalSpent example_ledger = 5 \<and> getSpentByAgent example_ledger ''A'' = 5
           \<and> getTodaySpending ''2025-01-01'' example_ledger = 5
           \<and> getEntry example_ledger ''b'' = None"
    by (simp add: ledger_defs)
  have b: "getEntry (recordAuthorization 1 fresh_ledger ''b'' ''B'' ''lookup''
                       \<lparr> maxAmountRequired = 7 \<rparr> ()) ''b'' \<noteq> None"
    by (simp add: fresh_ledger_def ledger_defs)
  from import_export_roundtrip
    [OF h, of "recordAuthorization 1 fresh_ledger ''b'' ''B'' ''lookup''
                 \<lparr> maxAmountRequired = 7 \<rparr> ()"] h v b
  show ?thesis by simp
qed

section \<open>Properties of the budget manager\<close>

text \<open>
  C2.  \<^verbatim>\<open>canApprove(agentId, amount)\<close> gives the verdict of the first failing check in
  the list: the per-request limit, the daily limit, the total budget, and, only when the
  agent has an allocation, the allocation less the agent's spending and reservations; it
  allows when none fails.  The list has four checks when an allocation exists and the three
  global ones otherwise.
\<close>

theorem canApprove_checks_in_order:
  "canApprove today l bm agentId amount = first_failure (budget_checks today l bm agentId amount)
   \<and> length (budget_checks today l bm agentId amount) =
       (if agentAllocations bm agentId = None then 3 else 4)"
  by (simp add: canApprove_def budget_checks_def Let_def not_less split: option.splits)

text \<open>
  The scenario: a first request of 3 by \<open>A\<close> is allowed and, once it is reserved, a second
  is denied by the allocation; 6 exceeds the per-request limit; with limits of 7 and 5 spent
  on the day a request of 3 hits the daily limit, and on the next day the total budget.
\<close>

theorem canApprove_checks_in_order_witness:
  "canApprove ''2025-01-01'' fresh_ledger example_budget ''A'' 3
     = \<lparr> allowed = True, reason = None \<rparr>
   \<and> canApprove ''2025-01-01'' fresh_ledger
       (snd (reserve ''u1'' ''2025-01-01'' fresh_ledger example_budget ''A'' 3)) ''A'' 3
     = \<lparr> allowed = False, reason = Some (WouldExceedAgentAllocation 5) \<rparr>
   \<and> canApprove ''2025-01-01'' example_ledger example_budget ''B'' 6
     = \<lparr> allowed = False, reason = Some (ExceedsPerRequestLimit 5) \<rparr>
   \<and> canApprove ''2025-01-01'' example_ledger
       (newBudgetManager \<lparr> totalBudget = 7, dailyLimit = 7, perRequestLimit = 5,
                            autoApproveUnder = 1 \<rparr>) ''B'' 3
     = \<lparr> allowed = False, reason = Some (WouldExceedDailyLimit 7) \<rparr>
   \<and> canApprove ''2025-01-02'' example_ledger
       (newBudgetManager \<lparr> totalBudget = 7, dailyLimit = 7, perRequestLimit = 5,
                            autoApproveUnder = 1 \<rparr>) ''B'' 3
     = \<lparr> allowed = False, reason = Some (WouldExceedTotalBudget 7) \<rparr>"
proof -
  have "first_failure (budget_checks ''2025-01-01'' fresh_ledger example_budget ''A'' 3)
          = \<lparr> allowed = True, reason = None \<rparr>"
    "first_failure (budget_checks ''2025-01-01'' fresh_ledger
        (snd (reserve ''u1'' ''2025-01-01'' fresh_ledger example_budget ''A'' 3)) ''A'' 3)
          = \<lparr> allowed = False, reason = Some (WouldExceedAgentAllocation 5) \<rparr>"
    "first_failure (budget_checks ''2025-01-01'' example_ledger example_budget ''B'' 6)
          = \<lparr> allowed = False, reason = Some (ExceedsPerRequestLimit 5) \<rparr>"
    "first_failure (budget_checks ''2025-01-01'' example_ledger
        (newBudgetManager \<lparr> totalBudget = 7, dailyLimit = 7, perRequestLimit = 5,
                             autoApproveUnder = 1 \<rparr>) ''B'' 3)
          = \<lparr> allowed = False, reason = Some (WouldExceedDailyLimit 7) \<rparr>"
    "first_failure (budget_checks ''2025-01-02'' example_ledger
        (newBudgetManager \<lparr> totalBudget = 7, dailyLimit = 7, perRequestLimit = 5,
                             autoApproveUnder = 1 \<rparr>) ''B'' 3)
          = \<lparr> allowed = False, reason = Some (WouldExceedTotalBudget 7) \<rparr>"
    by (simp_all add: budget_checks_def budget_defs ledger_defs)
  then show ?thesis
    by (simp only: canApprove_checks_in_order)
qed

text \<open>
  C9.  \<^verbatim>\<open>allocateToAgent(agentId, amount)\<close> installs, for that agent, an allocation of
  \<open>amount\<close> whose reserved counter is exactly zero, whatever allocation the agent had
  before (so a reservation in flight is dropped), and it touches no other agent and not
  the configuration.
\<close>

theorem allocateToAgent_resets_reserved:
  "agentAllocations (allocateToAgent bm agentId amount) agentId =
     Some \<lparr> alloc_agentId = agentId, allocated = amount, reserved = 0 \<rparr>
   \<and> (\<forall>other. other \<noteq> agentId \<longrightarrow>
         agentAllocations (allocateToAgent bm agentId amount) other = agentAllocations bm other)
   \<and> config (allocateToAgent bm agentId amount) = config bm"
  by (simp add: allocateToAgent_def)

text \<open>
  Agent \<open>A\<close> holds a reservation of 3; allocating 7 to \<open>A\<close> leaves a reserved counter of
  zero, and agent \<open>B\<close> is as before.
\<close>

theorem allocateToAgent_resets_reserved_witness:
  "reservedOf (snd (reserve ''u1'' ''2025-01-01'' fresh_ledger example_budget ''A'' 3)) ''A''
     = Some 3
   \<and> agentAllocations
       (allocateToAgent (snd (reserve ''u1'' ''2025-01-01'' fresh_ledger example_budget ''A'' 3))
          ''A'' 7) ''A''
       = Some \<lparr> alloc_agentId = ''A'', allocated = 7, reserved = 0 \<rparr>
   \<and> ''B'' \<noteq> ''A''
   \<and> agentAllocations
       (allocateToAgent (snd (reserve ''u1'' ''2025-01-01'' fresh_ledger example_budget ''A'' 3))
          ''A'' 7) ''B''
       = agentAllocations
           (snd (reserve ''u1'' ''2025-01-01'' fresh_ledger example_budget ''A'' 3)) ''B''"
  using allocateToAgent_resets_reserved
    [of "snd (reserve ''u1'' ''2025-01-01'' fresh_ledger example_budget ''A'' 3)" "''A''" 7]
  by (simp add: budget_defs ledger_defs)

text \<open>
  C10.  For an agent with no allocation, \<^verbatim>\<open>reserve\<close> returns the token drawn exactly
  when the three global checks pass and nothing otherwise, and in both cases the manager is
  as it was; \<^verbatim>\<open>releaseReservation\<close> for such an agent changes nothing either.
\<close>

theorem reserve_without_allocation:
  assumes "agentAllocations bm agentId = None"
  shows "reserve uuid today l bm agentId amount =
           (if amount \<le> perRequestLimit (config bm)
               \<and> getTodaySpending today l + amount \<le> dailyLimit (config bm)
               \<and> getTotalSpent l + amount \<le> totalBudget (config bm)
            then Some uuid else None, bm)
         \<and> releaseReservation bm agentId amount = bm"
  using assms by (simp add: reserve_def releaseReservation_def canApprove_def)

text \<open>Agent \<open>B\<close> has no allocation: 3 is granted, 6 is over the per-request limit.\<close>

theorem reserve_without_allocation_witness:
  "agentAllocations example_budget ''B'' = None
   \<and> reserve ''u1'' ''2025-01-01'' example_ledger example_budget ''B'' 3
       = (Some ''u1'', example_budget)
   \<and> reserve ''u2'' ''2025-01-01'' example_ledger example_budget ''B'' 6 = (None, example_budget)
   \<and> releaseReservation example_budget ''B'' 3 = example_budget"
proof -
  have h: "agentAllocations example_budget ''B'' = None"
    by (simp add: budget_defs)
  from reserve_without_allocation [OF h, of "''u1''" "''2025-01-01''" example_ledger 3]
    reserve_without_allocation [OF h, of "''u2''" "''2025-01-01''" example_ledger 6] h
  show ?thesis by (simp add: budget_defs ledger_defs)
qed

subsection \<open>The reserved counter\<close>

lemma releaseReservation_reserved:
  "agentAllocations bm agentId = Some allocation \<Longrightarrow>
   agentAllocations (releaseReservation bm agentId amount) =
     (agentAllocations bm)
       (agentId \<mapsto> allocation\<lparr>reserved := max 0 (reserved allocation - amount)\<rparr>)"
  by (auto simp add: releaseReservation_def max_def)

lemma apply_call_reserved_nonneg:
  assumes "reservedOf bm a = Some r" "0 \<le> r" "reserve_amount_ok c"
  shows "\<exists>r'. reservedOf (apply_call bm c) a = Some r' \<and> 0 \<le> r'"
proof (cases c)
  case (ReserveCall uuid today l agentId amount)
  with assms show ?thesis
    by (auto simp add: reservedOf_def reserve_def split: option.splits)
next
  case (ReleaseCall agentId amount)
  with assms show ?thesis
    by (auto simp add: reservedOf_def releaseReservation_def split: option.splits)
qed

lemma apply_calls_reserved_nonneg:
  "reservedOf bm a = Some r \<Longrightarrow> 0 \<le> r \<Longrightarrow> list_all reserve_amount_ok calls \<Longrightarrow>
   \<exists>r'. reservedOf (apply_calls bm calls) a = Some r' \<and> 0 \<le> r'"
proof (induction calls arbitrary: bm r)
  case Nil
  then show ?case by (simp add: apply_calls_def)
next
  case (Cons c calls)
  from Cons.prems obtain r1 where r1: "reservedOf (apply_call bm c) a = Some r1" "0 \<le> r1"
    using apply_call_reserved_nonneg [of bm a r c] by auto
  from Cons.IH [OF r1] Cons.prems(3) show ?case
    by (simp add: apply_calls_def)
qed

text \<open>
  C3, as the code has it.  For an agent whose allocation has a reserved counter of zero or
  more, the counter is still zero or more after every sequence of \<^verbatim>\<open>reserve\<close> and
  \<^verbatim>\<open>releaseReservation\<close> calls (on any agents, with the ledger in any state at each
  call) in which no \<^verbatim>\<open>reserve\<close> is given a negative amount.  A single
  \<^verbatim>\<open>releaseReservation(agentId, amount)\<close> sets the counter to the larger of zero and the
  counter less the amount, for every amount, reserved before or not.
\<close>

theorem reserved_stays_nonneg:
  "(reservedOf bm agentId = Some r \<and> 0 \<le> r \<and> list_all reserve_amount_ok calls
      \<longrightarrow> (\<exists>r'. reservedOf (apply_calls bm calls) agentId = Some r' \<and> 0 \<le> r'))
   \<and> (agentAllocations bm agentId = Some allocation
      \<longrightarrow> agentAllocations (releaseReservation bm agentId amount) agentId
            = Some (allocation\<lparr>reserved := max 0 (reserved allocation - amount)\<rparr>))"
  using apply_calls_reserved_nonneg [of bm agentId r calls]
    releaseReservation_reserved [of bm agentId allocation amount]
  by auto

text \<open>
  A reservation of 3 for \<open>A\<close> released twice: the counter goes to 3, to 0, and stays at 0;
  and a release of 3 that nothing reserved leaves the counter at 0.
\<close>

theorem reserved_stays_nonneg_witness:
  "reservedOf example_budget ''A'' = Some 0 \<and> (0::int) \<le> 0
   \<and> list_all reserve_amount_ok
       [ReserveCall ''u1'' ''2025-01-01'' fresh_ledger ''A'' 3, ReleaseCall ''A'' 3,
        ReleaseCall ''A'' 3]
   \<and> reservedOf (apply_calls example_budget
       [ReserveCall ''u1'' ''2025-01-01'' fresh_ledger ''A'' 3]) ''A'' = Some 3
   \<and> reservedOf (apply_calls example_budget
       [ReserveCall ''u1'' ''2025-01-01'' fresh_ledger ''A'' 3, ReleaseCall ''A'' 3,
        ReleaseCall ''A'' 3]) ''A'' = Some 0
   \<and> agentAllocations example_budget ''A''
       = Some \<lparr> alloc_agentId = ''A'', allocated = 5, reserved = 0 \<rparr>
   \<and> agentAllocations (releaseReservation example_budget ''A'' 3) ''A''
       = Some \<lparr> alloc_agentId = ''A'', allocated = 5, reserved = 0 \<rparr>"
  using reserved_stays_nonneg
    [of example_budget "''A''" 0
        "[ReserveCall ''u1'' ''2025-01-01'' fresh_ledger ''A'' 3, ReleaseCall ''A'' 3,
          ReleaseCall ''A'' 3]"
        "\<lparr> alloc_agentId = ''A'', allocated = 5, reserved = 0 \<rparr>" 3]
  by (simp add: budget_defs ledger_defs)

text \<open>
  The claim as written fails: \<^verbatim>\<open>reserve("A", "-3")\<close> passes every check and leaves the
  reserved counter of \<open>A\<close> at -3.
\<close>

theorem reserve_negative_amount_counterexample:
  "reservedOf example_budget ''A'' = Some 0
   \<and> reservedOf
       (apply_calls example_budget [ReserveCall ''u1'' ''2025-01-01'' fresh_ledger ''A'' (- 3)])
       ''A'' = Some (- 3)"
  by (simp add: budget_defs ledger_defs)

section \<open>Properties of the circuit breaker\<close>

lemma execute_config: "execute clock cb operation w = (r, cb', w') \<Longrightarrow> cb_config cb' = cb_config cb"
  by (auto simp add: execute_def onSuccess_def onFailure_def Let_def
      split: if_splits prod.splits settled.splits)

lemma execute_failed_closed:
  assumes "cb_state cb = Closed" "execute clock cb operation w = (Inl e, cb', w')"
  shows "cb_state cb' = Open
         \<or> (cb_state cb' = Closed \<and> failures cb' = failures cb + 1
             \<and> int (failures cb') < failureThreshold (cb_config cb))"
  using assms
  by (auto simp add: execute_def onSuccess_def onFailure_def Let_def
      split: if_splits prod.splits settled.splits)

lemma execute_failed_open:
  assumes "cb_state cb = Open" "execute clock cb operation w = (Inl e, cb', w')"
  shows "cb_state cb' = Open"
  using assms
  by (auto simp add: execute_def onSuccess_def onFailure_def Let_def
      split: if_splits prod.splits settled.splits)

lemma execute_all_failed_open:
  "cb_state cb = Open \<Longrightarrow> execute_all clock cb operations w = (rs, cb', w') \<Longrightarrow>
   list_all isl rs \<Longrightarrow> cb_state cb' = Open"
proof (induction operations arbitrary: cb w rs cb' w')
  case Nil
  then show ?case by simp
next
  case (Cons operation operations)
  obtain r cb1 w1 where e: "execute clock cb operation w = (r, cb1, w1)"
    by (cases "execute clock cb operation w") auto
  obtain rs1 cb2 w2 where a: "execute_all clock cb1 operations w1 = (rs1, cb2, w2)"
    by (cases "execute_all clock cb1 operations w1") auto
  from Cons.prems e a have rs: "rs = r # rs1" and cb': "cb' = cb2" by simp_all
  from Cons.prems(3) rs obtain err where r: "r = Inl err" and rs1: "list_all isl rs1"
    by (cases r) auto
  from e r have e': "execute clock cb operation w = (Inl err, cb1, w1)" by simp
  have "cb_state cb1 = Open"
    using execute_failed_open [OF Cons.prems(1) e'] .
  from Cons.IH [OF this a rs1] cb' show ?case by simp
qed

lemma execute_all_failed_closed:
  "cb_state cb = Closed \<Longrightarrow> execute_all clock cb operations w = (rs, cb', w') \<Longrightarrow>
   list_all isl rs \<Longrightarrow>
   cb_state cb' = Open
   \<or> (cb_state cb' = Closed \<and> failures cb' = failures cb + length operations
       \<and> (operations \<noteq> [] \<longrightarrow> int (failures cb') < failureThreshold (cb_config cb)))"
proof (induction operations arbitrary: cb w rs cb' w')
  case Nil
  then show ?case by simp
next
  case (Cons operation operations)
  obtain r cb1 w1 where e: "execute clock cb operation w = (r, cb1, w1)"
    by (cases "execute clock cb operation w") auto
  obtain rs1 cb2 w2 where a: "execute_all clock cb1 operations w1 = (rs1, cb2, w2)"
    by (cases "execute_all clock cb1 operations w1") auto
  from Cons.prems e a have rs: "rs = r # rs1" and cb': "cb' = cb2" by simp_all
  from Cons.prems(3) rs obtain err where r: "r = Inl err" and rs1: "list_all isl rs1"
    by (cases r) auto
  have cfg: "cb_config cb1 = cb_config cb" using execute_config [OF e] .
  from e r have e': "execute clock cb operation w = (Inl err, cb1, w1)" by simp
  from execute_failed_closed [OF Cons.prems(1) e']
  consider "cb_state cb1 = Open"
    | "cb_state cb1 = Closed" "failures cb1 = failures cb + 1"
      "int (failures cb1) < failureThreshold (cb_config cb)"
    by auto
  then show ?case
  proof cases
    case 1
    from execute_all_failed_open [OF 1 a rs1] cb' show ?thesis by simp
  next
    case 2
    from Cons.IH [OF 2(1) a rs1] cb' cfg 2 show ?thesis
      by (cases operations) auto
  qed
qed

lemma execute_ok_halfopen:
  assumes "cb_state cb = HalfOpen" "execute clock cb operation w = (Inr r, cb', w')"
  shows "(cb_state cb' = Closed \<and> successes cb' = 0)
         \<or> (cb_state cb' = HalfOpen \<and> successes cb' = successes cb + 1
             \<and> int (successes cb') < successThreshold (cb_config cb))"
  using assms
  by (auto simp add: execute_def onSuccess_def onFailure_def Let_def
      split: if_splits prod.splits settled.splits)

lemma execute_ok_closed:
  assumes "cb_state cb = Closed" "execute clock cb operation w = (Inr r, cb', w')"
  shows "cb_state cb' = Closed \<and> successes cb' = successes cb"
  using assms
  by (auto simp add: execute_def onSuccess_def onFailure_def Let_def
      split: if_splits prod.splits settled.splits)

lemma execute_two_ok_halfopen:
  assumes "cb_state cb = HalfOpen" "successThreshold (cb_config cb) = 2"
    "execute_all clock cb [o1, o2] w = (rs, cb', w')" "list_all (\<lambda>r. \<not> isl r) rs"
  shows "cb_state cb' = Closed \<and> successes cb' = 0"
proof -
  obtain r1 cb1 w1 where e1: "execute clock cb o1 w = (r1, cb1, w1)"
    by (cases "execute clock cb o1 w") auto
  obtain r2 cb2 w2 where e2: "execute clock cb1 o2 w1 = (r2, cb2, w2)"
    by (cases "execute clock cb1 o2 w1") auto
  from assms(3) e1 e2 have rs: "rs = [r1, r2]" and cb': "cb' = cb2" by simp_all
  from assms(4) rs obtain v1 v2 where r: "r1 = Inr v1" "r2 = Inr v2"
    by (cases r1; cases r2) auto
  have cfg: "cb_config cb1 = cb_config cb" using execute_config [OF e1] .
  from e1 r(1) have e1': "execute clock cb o1 w = (Inr v1, cb1, w1)" by simp
  from e2 r(2) have e2': "execute clock cb1 o2 w1 = (Inr v2, cb2, w2)" by simp
  from execute_ok_halfopen [OF assms(1) e1']
  consider "cb_state cb1 = Closed" "successes cb1 = 0"
    | "cb_state cb1 = HalfOpen" "successes cb1 = successes cb + 1"
    by auto
  then show ?thesis
  proof cases
    case 1
    from execute_ok_closed [OF 1(1) e2'] 1(2) cb' show ?thesis by simp
  next
    case 2
    from execute_ok_halfopen [OF 2(1) e2'] 2(2) cfg assms(2) cb' show ?thesis by auto
  qed
qed

lemma execute_open_cooldown_elapsed:
  assumes "cb_state cb = Open" "lastFailure cb = Some t" "timeout (cb_config cb) \<le> clock w - t"
  shows "execute clock cb operation w =
           (case operation w of
              (Resolves result, w1) \<Rightarrow>
                (Inr result, onSuccess (cb\<lparr>cb_state := HalfOpen\<rparr>), w1)
            | (Rejects err, w1) \<Rightarrow>
                (Inl (OperationError err),
                 onFailure (clock w1) (cb\<lparr>cb_state := HalfOpen\<rparr>), w1))"
  using assms by (simp add: execute_def shouldAttemptReset_def Let_def)

lemma execute_failed_halfopen:
  assumes "cb_state cb = HalfOpen" "execute clock cb operation w = (Inl e, cb', w')"
  shows "cb_state cb' = Open"
  using assms
  by (auto simp add: execute_def onSuccess_def onFailure_def Let_def
      split: if_splits prod.splits settled.splits)

text \<open>
  C4.  With a failure threshold of 5, five consecutive \<^verbatim>\<open>execute\<close> calls that fail,
  made on a closed breaker, leave it open.  On an open breaker whose cooldown has elapsed
  since the last failure, \<^verbatim>\<open>execute\<close> makes the breaker half-open and invokes the
  operation: its success or failure is recorded on the half-open breaker.  With a success
  threshold of 2, two consecutive successful calls on a half-open breaker leave it closed
  with the success counter at zero.  One failed call on a half-open breaker leaves it open.
\<close>

theorem circuit_breaker_state_machine:
  "(failureThreshold (cb_config cb) = 5 \<and> cb_state cb = Closed \<and> length operations = 5
      \<and> list_all isl (fst (execute_all clock cb operations w))
     \<longrightarrow> cb_state (fst (snd (execute_all clock cb operations w))) = Open)
   \<and> (cb_state cb = Open \<and> lastFailure cb = Some t \<and> timeout (cb_config cb) \<le> clock w - t
     \<longrightarrow> execute clock cb operation w =
           (case operation w of
              (Resolves result, w1) \<Rightarrow>
                (Inr result, onSuccess (cb\<lparr>cb_state := HalfOpen\<rparr>), w1)
            | (Rejects err, w1) \<Rightarrow>
                (Inl (OperationError err),
                 onFailure (clock w1) (cb\<lparr>cb_state := HalfOpen\<rparr>), w1)))
   \<and> (successThreshold (cb_config cb) = 2 \<and> cb_state cb = HalfOpen \<and> length operations = 2
      \<and> list_all (\<lambda>r. \<not> isl r) (fst (execute_all clock cb operations w))
     \<longrightarrow> cb_state (fst (snd (execute_all clock cb operations w))) = Closed
         \<and> successes (fst (snd (execute_all clock cb operations w))) = 0)
   \<and> (cb_state cb = HalfOpen \<and> isl (fst (execute clock cb operation w))
     \<longrightarrow> cb_state (fst (snd (execute clock cb operation w))) = Open)"
proof (intro conjI impI)
  assume h: "failureThreshold (cb_config cb) = 5 \<and> cb_state cb = Closed \<and> length operations = 5
      \<and> list_all isl (fst (execute_all clock cb operations w))"
  obtain rs cb' w' where a: "execute_all clock cb operations w = (rs, cb', w')"
    by (cases "execute_all clock cb operations w") auto
  from h have ne: "operations \<noteq> []" by auto
  from execute_all_failed_closed [of cb clock operations w rs cb' w'] h a ne
  show "cb_state (fst (snd (execute_all clock cb operations w))) = Open"
    by auto
next
  assume "cb_state cb = Open \<and> lastFailure cb = Some t \<and> timeout (cb_config cb) \<le> clock w - t"
  then show "execute clock cb operation w =
           (case operation w of
              (Resolves result, w1) \<Rightarrow>
                (Inr result, onSuccess (cb\<lparr>cb_state := HalfOpen\<rparr>), w1)
            | (Rejects err, w1) \<Rightarrow>
                (Inl (OperationError err),
                 onFailure (clock w1) (cb\<lparr>cb_state := HalfOpen\<rparr>), w1))"
    using execute_open_cooldown_elapsed [of cb t clock w operation] by simp
next
  assume h: "successThreshold (cb_config cb) = 2 \<and> cb_state cb = HalfOpen \<and> length operations = 2
      \<and> list_all (\<lambda>r. \<not> isl r) (fst (execute_all clock cb operations w))"
  then obtain o1 o2 where ops: "operations = [o1, o2]"
    by (cases operations; cases "tl operations") auto
  obtain rs cb' w' where a: "execute_all clock cb [o1, o2] w = (rs, cb', w')"
    by (cases "execute_all clock cb [o1, o2] w") auto
  have r: "cb_state cb' = Closed \<and> successes cb' = 0"
    using execute_two_ok_halfopen [of cb clock o1 o2 w rs cb' w'] h a ops by simp
  from r a ops show "cb_state (fst (snd (execute_all clock cb operations w))) = Closed"
    by simp
  from r a ops show "successes (fst (snd (execute_all clock cb operations w))) = 0"
    by simp
next
  assume h: "cb_state cb = HalfOpen \<and> isl (fst (execute clock cb operation w))"
  obtain r cb' w' where e: "execute clock cb operation w = (r, cb', w')"
    by (cases "execute clock cb operation w") auto
  with h obtain err where "r = Inl err" by (cases r) auto
  with execute_failed_halfopen [of cb clock operation w err cb' w'] h e
  show "cb_state (fst (snd (execute clock cb operation w))) = Open" by simp
qed

text \<open>
  A new breaker with the default thresholds (5, 2, 30 s): five failures at time 0 open it,
  a successful call 30 s later runs the operation on the half-open breaker, two successes
  from half-open close it, and a failure from half-open opens it again.
\<close>

theorem circuit_breaker_state_machine_witness:
  "failureThreshold (cb_config (newCircuitBreaker ''A'' None)) = 5
   \<and> cb_state (newCircuitBreaker ''A'' None) = Closed
   \<and> list_all isl (fst (execute_all id (newCircuitBreaker ''A'' None)
        [always_fails, always_fails, always_fails, always_fails, always_fails] 0))
   \<and> cb_state tripped_breaker = Open
   \<and> lastFailure tripped_breaker = Some 0
   \<and> timeout (cb_config tripped_breaker) \<le> id 30000 - 0
   \<and> execute id tripped_breaker always_succeeds 30000
       = (Inr ''ok'', tripped_breaker\<lparr>cb_state := HalfOpen, failures := 0, successes := 1\<rparr>, 30000)
   \<and> successThreshold (cb_config tripped_breaker) = 2
   \<and> list_all (\<lambda>r. \<not> isl r)
        (fst (execute_all id (tripped_breaker\<lparr>cb_state := HalfOpen\<rparr>)
                [always_succeeds, always_succeeds] 30000))
   \<and> cb_state (fst (snd (execute_all id (tripped_breaker\<lparr>cb_state := HalfOpen\<rparr>)
                [always_succeeds, always_succeeds] 30000))) = Closed
   \<and> successes (fst (snd (execute_all id (tripped_breaker\<lparr>cb_state := HalfOpen\<rparr>)
                [always_succeeds, always_succeeds] 30000))) = 0
   \<and> isl (fst (execute id (tripped_breaker\<lparr>cb_state := HalfOpen\<rparr>) always_fails 30000))
   \<and> cb_state (fst (snd (execute id (tripped_breaker\<lparr>cb_state := HalfOpen\<rparr>)
                always_fails 30000))) = Open"
proof -
  have a: "failureThreshold (cb_config (newCircuitBreaker ''A'' None)) = 5
      \<and> cb_state (newCircuitBreaker ''A'' None) = Closed
      \<and> length [always_fails, always_fails, always_fails, always_fails, always_fails] = 5
      \<and> list_all isl (fst (execute_all id (newCircuitBreaker ''A'' None)
           [always_fails, always_fails, always_fails, always_fails, always_fails] 0))"
    by (simp add: breaker_defs)
  have b: "cb_state tripped_breaker = Open \<and> lastFailure tripped_breaker = Some 0
      \<and> timeout (cb_config tripped_breaker) \<le> id 30000 - 0"
    by (simp add: tripped_breaker_eval)
  have c: "successThreshold (cb_config (tripped_breaker\<lparr>cb_state := HalfOpen\<rparr>)) = 2
      \<and> cb_state (tripped_breaker\<lparr>cb_state := HalfOpen\<rparr>) = HalfOpen
      \<and> length [always_succeeds, always_succeeds] = 2
      \<and> list_all (\<lambda>r. \<not> isl r)
           (fst (execute_all id (tripped_breaker\<lparr>cb_state := HalfOpen\<rparr>)
                   [always_succeeds, always_succeeds] 30000))"
    by (simp add: tripped_breaker_eval breaker_defs)
  have d: "cb_state (tripped_breaker\<lparr>cb_state := HalfOpen\<rparr>) = HalfOpen
      \<and> isl (fst (execute id (tripped_breaker\<lparr>cb_state := HalfOpen\<rparr>) always_fails 30000))"
    by (simp add: tripped_breaker_eval breaker_defs)
  note sm1 = circuit_breaker_state_machine
    [of "newCircuitBreaker ''A'' None"
        "[always_fails, always_fails, always_fails, always_fails, always_fails]" id 0
        0 always_succeeds]
  note sm2 = circuit_breaker_state_machine
    [of tripped_breaker "[always_succeeds, always_succeeds]" id 30000 0 always_succeeds]
  note sm3 = circuit_breaker_state_machine
    [of "tripped_breaker\<lparr>cb_state := HalfOpen\<rparr>" "[always_succeeds, always_succeeds]" id 30000
        0 always_fails]
  from sm1 a have A: "cb_state tripped_breaker = Open"
    unfolding tripped_breaker_def by blast
  from sm2 b have "execute id tripped_breaker always_succeeds 30000 =
      (case always_succeeds 30000 of
         (Resolves result, w1) \<Rightarrow>
           (Inr result, onSuccess (tripped_breaker\<lparr>cb_state := HalfOpen\<rparr>), w1)
       | (Rejects err, w1) \<Rightarrow>
           (Inl (OperationError err),
            onFailure (id w1) (tripped_breaker\<lparr>cb_state := HalfOpen\<rparr>), w1))"
    by blast
  then have B: "execute id tripped_breaker always_succeeds 30000
       = (Inr ''ok'', tripped_breaker\<lparr>cb_state := HalfOpen, failures := 0, successes := 1\<rparr>,
          30000)"
    by (simp add: tripped_breaker_eval always_succeeds_def onSuccess_def)
  from sm3 c have C: "cb_state (fst (snd (execute_all id (tripped_breaker\<lparr>cb_state := HalfOpen\<rparr>)
                [always_succeeds, always_succeeds] 30000))) = Closed
      \<and> successes (fst (snd (execute_all id (tripped_breaker\<lparr>cb_state := HalfOpen\<rparr>)
                [always_succeeds, always_succeeds] 30000))) = 0"
    by blast
  from sm3 d have D: "cb_state (fst (snd (execute id (tripped_breaker\<lparr>cb_state := HalfOpen\<rparr>)
                always_fails 30000))) = Open"
    by blast
  from a b c d A B C D show ?thesis by simp
qed

section \<open>Properties of the gateway\<close>

lemma loop_is_first_success_of_qualifying:
  "callToolWithFallback_loop rt reg toolName args ids g w =
     first_success rt reg toolName args (filter (qualifies reg toolName) ids) g w"
proof (induction ids arbitrary: g w)
  case Nil
  then show ?case by simp
next
  case (Cons fallbackId rest)
  show ?case
  proof (cases "qualifies reg toolName fallbackId")
    case True
    then show ?thesis
      using Cons.IH
      by (auto simp add: qualifies_def list_ex_iff split: option.splits prod.splits)
  next
    case False
    then show ?thesis
      using Cons.IH
      by (auto simp add: qualifies_def list_ex_iff split: option.splits)
  qed
qed

text \<open>
  C7.  \<^verbatim>\<open>callToolWithFallback\<close> calls the primary first and returns its result when it
  succeeds.  Otherwise it returns the first successful result among the fallback ids that
  qualify (a descriptor exists, is healthy and exposes the operation), called in the order
  given, each on the gateway and world the call before left; the ids that do not qualify
  are not called.  When none succeeds the result is a failure whose message ends with the
  primary's id.
\<close>

theorem callToolWithFallback_first_qualifying_success:
  "callToolWithFallback rt reg g primaryAgentId toolName args fallbackAgentIds w =
     (case callTool rt reg g primaryAgentId toolName args w of
        (primaryResult, g1, w1) \<Rightarrow>
          if success primaryResult then (primaryResult, g1, w1)
          else
            (case first_success rt reg toolName args
                    (filter (qualifies reg toolName) fallbackAgentIds) g1 w1 of
               (Some fallbackResult, g2, w2) \<Rightarrow> (fallbackResult, g2, w2)
             | (None, g2, w2) \<Rightarrow>
                 (\<lparr> success = False, data = None,
                    error = Some (''All agents failed for tool '' @ toolName @ ''. Primary: ''
                                    @ primaryAgentId) \<rparr>, g2, w2)))"
  by (simp add: callToolWithFallback_def loop_is_first_success_of_qualifying failure_def
      split: prod.splits option.splits)

text \<open>
  The scenario: the primary fails and exactly one fallback qualifies, so its result is
  returned; without it the aggregate failure names the primary.
\<close>

theorem callToolWithFallback_first_qualifying_success_witness:
  "filter (qualifies example_registry ''search'') [''F0'', ''F1'', ''F2'', ''F3''] = [''F3'']
   \<and> fst (callToolWithFallback example_runtime example_registry (newGateway None None)
            ''P'' ''search'' () [''F0'', ''F1'', ''F2'', ''F3''] 0)
       = \<lparr> success = True, data = Some (DataText ''42''), error = None \<rparr>
   \<and> filter (qualifies example_registry ''search'') [''F0'', ''F1'', ''F2''] = []
   \<and> fst (callToolWithFallback example_runtime example_registry (newGateway None None)
            ''P'' ''search'' () [''F0'', ''F1'', ''F2''] 0)
       = \<lparr> success = False, data = None,
           error = Some ''All agents failed for tool search. Primary: P'' \<rparr>"
  using callToolWithFallback_first_qualifying_success
    [of example_runtime example_registry "newGateway None None" "''P''" "''search''" "()"
        "[''F0'', ''F1'', ''F2'', ''F3'']" 0]
    callToolWithFallback_first_qualifying_success
    [of example_runtime example_registry "newGateway None None" "''P''" "''search''" "()"
        "[''F0'', ''F1'', ''F2'']" 0]
  by (simp add: gateway_defs breaker_defs)

section \<open>Properties of the treasurer\<close>

text \<open>
  C5, as the code has it.  \<^verbatim>\<open>onStatus\<close> updates the ledger entry with the mapped status:
  accepted to accepted, rejected and declined to rejected, error to error, and every other
  status, sending included, to pending.  When the correlation and the ledger entry both
  exist, the reservation of the correlated agent is released by the entry's amount exactly
  if the status is neither accepted nor sending, so also for a status outside the
  vocabulary; otherwise the budget manager is unchanged.  The correlation is dropped
  exactly on accepted, rejected, declined and error.
\<close>

theorem onStatus_effects:
  "ledger (onStatus today t status authorization) =
     updateStatus today (ledger t) (authorizationId authorization) (ledgerStatusOf status) None
   \<and> ledgerStatusOf ''accepted'' = Accepted \<and> ledgerStatusOf ''rejected'' = Rejected
   \<and> ledgerStatusOf ''declined'' = Rejected \<and> ledgerStatusOf ''error'' = Error
   \<and> ledgerStatusOf ''sending'' = Pending
   \<and> (status \<notin> set [''accepted'', ''rejected'', ''declined'', ''error'']
        \<longrightarrow> ledgerStatusOf status = Pending)
   \<and> budgetManager (onStatus today t status authorization) =
       (case (pendingContexts t (authorizationId authorization),
              getEntry (ledger t) (authorizationId authorization)) of
          (Some ctx, Some entry) \<Rightarrow>
            if status \<noteq> ''accepted'' \<and> status \<noteq> ''sending''
            then releaseReservation (budgetManager t) (ctx_agentId ctx) (pe_amount entry)
            else budgetManager t
        | _ \<Rightarrow> budgetManager t)
   \<and> pendingContexts (onStatus today t status authorization) =
       (if status \<in> set [''accepted'', ''rejected'', ''declined'', ''error'']
        then (pendingContexts t)(authorizationId authorization := None)
        else pendingContexts t)"
proof -
  have amount: "getEntry (updateStatus today (ledger t) ident s None) ident
                  = map_option (\<lambda>e. e\<lparr>pe_status := s\<rparr>) (getEntry (ledger t) ident)" for ident s
    by (cases "getEntry (ledger t) ident")
       (auto simp add: getEntry_def updateStatus_def addToDailySpending_def
          map_get_map_set_same Let_def)
  show ?thesis
    by (simp add: onStatus_def Let_def amount ledgerStatusOf_def split: option.splits)
qed

text \<open>
  On the example treasurer a rejected status releases the 3 reserved for \<open>A\<close> and drops the
  correlation; sending is outside the four terminal names and maps to pending.
\<close>

theorem onStatus_effects_witness:
  "ledger (onStatus ''2025-01-01'' example_treasurer ''rejected'' example_authorization)
     = updateStatus ''2025-01-01'' (ledger example_treasurer) ''x1'' Rejected None
   \<and> ''sending'' \<notin> set [''accepted'', ''rejected'', ''declined'', ''error'']
   \<and> ledgerStatusOf ''sending'' = Pending
   \<and> reservedOf (budgetManager example_treasurer) ''A'' = Some 3
   \<and> reservedOf (budgetManager
        (onStatus ''2025-01-01'' example_treasurer ''rejected'' example_authorization)) ''A''
       = Some 0
   \<and> pendingContexts
        (onStatus ''2025-01-01'' example_treasurer ''rejected'' example_authorization) ''x1''
       = None"
  using onStatus_effects [of "''2025-01-01''" example_treasurer "''rejected''" example_authorization]
    onStatus_effects [of "''2025-01-01''" example_treasurer "''sending''" example_authorization]
  by (simp add: treasurer_defs budget_defs ledger_defs)

text \<open>
  The claim as written fails: the status \<open>timeout\<close> is outside the vocabulary and is
  recorded as pending, not a terminal outcome, yet the reservation of 3 is released; the
  correlation stays.
\<close>

theorem onStatus_unknown_status_counterexample:
  "reservedOf (budgetManager example_treasurer) ''A'' = Some 3
   \<and> ledgerStatusOf ''timeout'' = Pending
   \<and> reservedOf (budgetManager
        (onStatus ''2025-01-01'' example_treasurer ''timeout'' example_authorization)) ''A''
       = Some 0
   \<and> map_option ctx_agentId (pendingContexts
        (onStatus ''2025-01-01'' example_treasurer ''timeout'' example_authorization) ''x1'')
       = Some ''A''"
  by (simp add: onStatus_def ledgerStatusOf_def treasurer_defs budget_defs ledger_defs)

end
